theory Spec2Isabelle
  imports Main
begin

section \<open>Playback data published by the Spotify player module\<close>

text \<open>
  The module \<open>lib/spotify/player\<close> keeps the device's last playback state in an atom
  and derives the paused flag and the track texts from it. A playback state carries the
  paused flag, the position in milliseconds and the current track of its track window.
\<close>

datatype SpotifyPlayerStatus =
  LOADING | NOT_CONNECTED | INIT_ERROR | AUTH_ERROR | ACCT_ERROR | PLAYBACK_ERROR | READY

record Track =
  name :: string
  artists :: "string list"

record PlaybackState =
  paused :: bool
  position :: int
  current_track :: "Track option"

text \<open>\<open>spotifyPausedAtom\<close>: \<open>state ? state.paused : true\<close>.\<close>

definition spotifyPausedAtom :: "PlaybackState option \<Rightarrow> bool" where
  "spotifyPausedAtom state = (case state of None \<Rightarrow> True | Some st \<Rightarrow> paused st)"

text \<open>\<open>currenTrackAtom\<close>: \<open>get(playbackStateAtom)?.track_window.current_track\<close>.\<close>

definition currenTrackAtom :: "PlaybackState option \<Rightarrow> Track option" where
  "currenTrackAtom state = (case state of None \<Rightarrow> None | Some st \<Rightarrow> current_track st)"

text \<open>\<open>Array.prototype.join\<close> with a separator.\<close>

fun join :: "string \<Rightarrow> string list \<Rightarrow> string" where
  "join sep [] = []"
| "join sep [x] = x"
| "join sep (x # y # ys) = x @ sep @ join sep (y # ys)"

definition spotifyArtistAtom :: "PlaybackState option \<Rightarrow> string" where
  "spotifyArtistAtom state =
     (case currenTrackAtom state of None \<Rightarrow> [] | Some track \<Rightarrow> join '', '' (artists track))"

definition spotifyTrackNameAtom :: "PlaybackState option \<Rightarrow> string" where
  "spotifyTrackNameAtom state =
     (case currenTrackAtom state of None \<Rightarrow> [] | Some track \<Rightarrow> name track)"

section \<open>The wrapped player: tick subscribers and seeking\<close>

text \<open>
  \<open>wrapSpotifyPlayer\<close> closes over the array \<open>onTickCallbacks\<close>. The model passes the
  array in and out. A callback is a value compared by identity (\<open>cb === callback\<close>).
  What a call does to the outside is a list of actions, in the order they happen: a call
  of a method of the device, or a call of a subscriber with a time.
  A device method returns a promise; the model takes the way it settles as an argument.
\<close>

datatype 'a settled = Fulfilled 'a | Rejected

datatype 'cb action = Seek int | GetCurrentState | Call 'cb int

text \<open>
  \<open>tick(ms)\<close>: the time is \<open>ms\<close> when it is given, otherwise the position of the state
  the device answers with; every subscriber is called with it when it is defined.
\<close>

definition tick :: "int option \<Rightarrow> PlaybackState option settled \<Rightarrow> 'cb list \<Rightarrow> 'cb action list" where
  "tick ms cur onTickCallbacks =
     (let (calls, timeMs) =
        (case ms of
           Some m \<Rightarrow> ([], Some m)
         | None \<Rightarrow> ([GetCurrentState],
             (case cur of Fulfilled (Some st) \<Rightarrow> Some (position st) | _ \<Rightarrow> None)))
      in calls @ (case timeMs of
                    Some t \<Rightarrow> map (\<lambda>cb. Call cb t) onTickCallbacks
                  | None \<Rightarrow> []))"

text \<open>
  \<open>seekTo(timeMs)\<close>: \<open>player.seek(posTimeMs).then(() => tick(posTimeMs))\<close>; the
  continuation runs when the promise of \<open>seek\<close> is fulfilled.
\<close>

definition seekTo ::
  "int \<Rightarrow> unit settled \<Rightarrow> PlaybackState option settled \<Rightarrow> 'cb list \<Rightarrow> 'cb action list" where
  "seekTo timeMs seeked cur onTickCallbacks =
     (let posTimeMs = (if timeMs < 0 then 0 else timeMs)
      in Seek posTimeMs #
         (case seeked of
            Fulfilled _ \<Rightarrow> tick (Some posTimeMs) cur onTickCallbacks
          | Rejected \<Rightarrow> []))"

text \<open>
  \<open>addOnTick(cb)\<close>: asks the device for its state, pushes \<open>cb\<close>, and the continuation
  \<open>state && cb(state.position)\<close> runs when the answer arrives. The result is the new
  array and the actions.
\<close>

definition addOnTick ::
  "'cb \<Rightarrow> PlaybackState option settled \<Rightarrow> 'cb list \<Rightarrow> 'cb list \<times> 'cb action list" where
  "addOnTick cb cur onTickCallbacks =
     (onTickCallbacks @ [cb],
      GetCurrentState #
        (case cur of Fulfilled (Some st) \<Rightarrow> [Call cb (position st)] | _ \<Rightarrow> []))"

text \<open>\<open>Array.prototype.findIndex\<close>: the first index whose element satisfies the test, or -1.\<close>

fun findIndex :: "('a \<Rightarrow> bool) \<Rightarrow> 'a list \<Rightarrow> int" where
  "findIndex P [] = - 1"
| "findIndex P (x # xs) =
     (if P x then 0 else (let i = findIndex P xs in if i > - 1 then i + 1 else - 1))"

text \<open>\<open>Array.prototype.splice(start, deleteCount)\<close> for a start inside the array.\<close>

definition splice :: "nat \<Rightarrow> nat \<Rightarrow> 'a list \<Rightarrow> 'a list" where
  "splice start deleteCount xs = take start xs @ drop (start + deleteCount) xs"

definition removeOnTick :: "'cb \<Rightarrow> 'cb list \<Rightarrow> 'cb list" where
  "removeOnTick callback onTickCallbacks =
     (if length onTickCallbacks = 0 then onTickCallbacks
      else (let index = findIndex (\<lambda>cb. cb = callback) onTickCallbacks
            in if index > - 1 then splice (nat index) 1 onTickCallbacks
               else onTickCallbacks))"

section \<open>The device connection: \<open>useSpotifyPlayer\<close>\<close>

text \<open>
  The hook's effect works on module and browser state: the variable \<open>tokenAndPromise\<close>,
  \<open>window.spotifyPlayer\<close>, \<open>window.onSpotifyWebPlaybackSDKReady\<close>, the document, the
  three atoms, and the player objects with the listeners registered on them. The model
  keeps them in one record. Player objects and promises live in two stores and are
  referred to by their index there.
\<close>

record element =
  tag :: string
  elem_id :: string
  src :: string

text \<open>
  The functions registered on a player: \<open>stateChangeCallback\<close> of the wrapper and the
  six functions the hook registers after a connect.
\<close>

datatype listener =
  StateChangeCallback | OnPlayerStateChanged | OnPlaybackError | OnInitializationError
  | OnAuthenticationError | OnAccountError | OnReady

record SpotifyPlayer =
  authToken :: string
  connected :: bool
  listeners :: "(string \<times> listener) list"

datatype promise = Pending | Resolved nat

text \<open>The calls that matter for the order of construction and disconnection.\<close>

datatype call = Disconnect nat | GetSpotifyPlayer string | NewPlayer nat | Connect nat

record world =
  tokenAndPromise :: "(string \<times> nat option) option"
  window_spotifyPlayer :: "nat option"
  onSpotifyWebPlaybackSDKReady :: "(nat \<times> string) option"
  document :: "element list"
  players :: "SpotifyPlayer list"
  promises :: "promise list"
  thens :: "nat list"
  stateQueries :: "nat list"
  spotifyPlayerAtom :: "nat option"
  playerStatusAtom :: SpotifyPlayerStatus
  playbackStateAtom :: "PlaybackState option"
  tickListenerCalls :: "(nat \<times> bool) list"
  calls :: "call list"

text \<open>
  \<open>thens\<close> holds, for each run of the effect, the promise its \<open>then\<close> callback waits
  on; \<open>stateQueries\<close> the players whose \<open>getCurrentState().then(onPlayerStateChanged)\<close>
  has not been answered; \<open>tickListenerCalls\<close> the calls of the imported
  \<open>playbackListenerForTick\<close> (module \<open>../player\<close>), with the wrapper that made them.
\<close>

definition initial :: world where
  "initial = \<lparr>tokenAndPromise = None, window_spotifyPlayer = None,
     onSpotifyWebPlaybackSDKReady = None, document = [], players = [], promises = [],
     thens = [], stateQueries = [], spotifyPlayerAtom = None, playerStatusAtom = LOADING,
     playbackStateAtom = None, tickListenerCalls = [], calls = []\<rparr>"

definition SPOTIFY_SCRIPT_ID :: string where
  "SPOTIFY_SCRIPT_ID = ''spotify-sdk-script''"

definition playerEvents :: "string list" where
  "playerEvents = [''player_state_changed'', ''playback_error'', ''initialization_error'',
     ''authentication_error'', ''account_error'', ''ready'']"

definition getElementById :: "string \<Rightarrow> element list \<Rightarrow> element option" where
  "getElementById i doc = find (\<lambda>e. elem_id e = i) doc"

text \<open>
  \<open>wrapSpotifyPlayer(player, authToken)\<close> extends the player object it is given
  (\<open>Object.assign\<close>) and registers \<open>stateChangeCallback\<close> on it. Both callers pass an
  object made on the spot (\<open>new Spotify.Player\<close>, \<open>getFakePlayer()\<close>), so the model
  allocates the object here. The result is the index of the player.
\<close>

definition wrapSpotifyPlayer :: "string \<Rightarrow> world \<Rightarrow> nat \<times> world" where
  "wrapSpotifyPlayer token w =
     (length (players w),
      w\<lparr>players := players w @
           [\<lparr>authToken = token, connected = False,
             listeners = [(''player_state_changed'', StateChangeCallback)]\<rparr>],
        calls := calls w @ [NewPlayer (length (players w))]\<rparr>)"

text \<open>
  \<open>getSpotifyPlayer(token)\<close>: injects the script unless an element with its id exists,
  and returns a promise that the function stored in
  \<open>window.onSpotifyWebPlaybackSDKReady\<close> resolves.
\<close>

definition getSpotifyPlayer :: "string \<Rightarrow> world \<Rightarrow> nat \<times> world" where
  "getSpotifyPlayer token w =
     (let w1 = (if getElementById SPOTIFY_SCRIPT_ID (document w) = None
                then w\<lparr>document := document w @
                       [\<lparr>tag = ''script'', elem_id = SPOTIFY_SCRIPT_ID,
                         src = ''https://sdk.scdn.co/spotify-player.js''\<rparr>]\<rparr>
                else w);
          p = length (promises w1)
      in (p, w1\<lparr>promises := promises w1 @ [Pending],
               onSpotifyWebPlaybackSDKReady := Some (p, token),
               calls := calls w1 @ [GetSpotifyPlayer token]\<rparr>))"

text \<open>
  The function stored in \<open>window.onSpotifyWebPlaybackSDKReady\<close>, called by the SDK:
  makes the player, wraps it and resolves the promise (resolving a settled promise does
  nothing). None when no function is stored.
\<close>

definition sdkReady :: "world \<Rightarrow> world option" where
  "sdkReady w =
     (case onSpotifyWebPlaybackSDKReady w of
        None \<Rightarrow> None
      | Some (p, token) \<Rightarrow>
          (let (h, w1) = wrapSpotifyPlayer token w
           in Some (w1\<lparr>promises :=
                (if promises w1 ! p = Pending then (promises w1)[p := Resolved h]
                 else promises w1)\<rparr>)))"

text \<open>The device's own \<open>disconnect\<close>.\<close>

definition disconnect :: "nat \<Rightarrow> world \<Rightarrow> world" where
  "disconnect h w =
     w\<lparr>players := (players w)[h := (players w ! h)\<lparr>connected := False\<rparr>],
       calls := calls w @ [Disconnect h]\<rparr>"

text \<open>
  The first part of the effect, for a non-empty token: which promise ends up in
  \<open>tokenAndPromise\<close>.
\<close>

definition useSpotifyPlayer_obtain :: "string \<Rightarrow> world \<Rightarrow> world" where
  "useSpotifyPlayer_obtain token w =
     (if (case window_spotifyPlayer w of
            None \<Rightarrow> False
          | Some h \<Rightarrow> authToken (players w ! h) = token)
      then (case window_spotifyPlayer w of
              None \<Rightarrow> w
            | Some h \<Rightarrow>
                w\<lparr>promises := promises w @ [Resolved h],
                  tokenAndPromise := Some (token, Some (length (promises w)))\<rparr>)
      else if (case tokenAndPromise w of
                 None \<Rightarrow> True
               | Some (t, p) \<Rightarrow> (if token = t then p = None else True))
      then (let w1 = (case window_spotifyPlayer w of
                        None \<Rightarrow> w
                      | Some h \<Rightarrow> disconnect h w);
                (promise, w2) =
                  (if token = ''fake''
                   then (let (h, w') = wrapSpotifyPlayer token w1
                         in (length (promises w'),
                             w'\<lparr>promises := promises w' @ [Resolved h]\<rparr>))
                   else getSpotifyPlayer token w1)
            in w2\<lparr>tokenAndPromise := Some (token, Some promise)\<rparr>)
      else w)"

text \<open>
  The effect: nothing for a null or empty token; otherwise the part above, then a
  \<open>then\<close> callback on the promise of \<open>tokenAndPromise\<close>.
\<close>

definition useSpotifyPlayer_effect :: "string option \<Rightarrow> world \<Rightarrow> world" where
  "useSpotifyPlayer_effect tok w =
     (case tok of
        None \<Rightarrow> w
      | Some token \<Rightarrow>
          if token = [] then w
          else (let w1 = useSpotifyPlayer_obtain token w
                in (case tokenAndPromise w1 of
                      Some (t, Some p) \<Rightarrow> w1\<lparr>thens := thens w1 @ [p]\<rparr>
                    | _ \<Rightarrow> w1)))"

definition addListener :: "nat \<Rightarrow> string \<Rightarrow> listener \<Rightarrow> world \<Rightarrow> world" where
  "addListener h event l w =
     w\<lparr>players := (players w)[h := (players w ! h)
          \<lparr>listeners := listeners (players w ! h) @ [(event, l)]\<rparr>]\<rparr>"

text \<open>\<open>removeListener(event)\<close> without a callback removes every listener of that event.\<close>

definition removeListener :: "nat \<Rightarrow> string \<Rightarrow> world \<Rightarrow> world" where
  "removeListener h event w =
     w\<lparr>players := (players w)[h := (players w ! h)
          \<lparr>listeners := filter (\<lambda>(e, l). e \<noteq> event) (listeners (players w ! h))\<rparr>]\<rparr>"

text \<open>
  The \<open>then\<close> callback, for the player \<open>wp\<close> the promise resolved to and the value
  \<open>ok\<close> that \<open>await wp.connect()\<close> yields. The callback does nothing before the connect
  settles, so the step stands at that moment.
\<close>

definition useSpotifyPlayer_then :: "nat \<Rightarrow> bool \<Rightarrow> world \<Rightarrow> world" where
  "useSpotifyPlayer_then wp ok w =
     (if \<not> ok then w\<lparr>playerStatusAtom := INIT_ERROR\<rparr>
      else (let w1 = w\<lparr>players := (players w)[wp := (players w ! wp)\<lparr>connected := True\<rparr>],
                       calls := calls w @ [Connect wp],
                       window_spotifyPlayer := Some wp,
                       stateQueries := stateQueries w @ [wp]\<rparr>
            in foldl (\<lambda>w (event, l). addListener wp event l w) w1
                 [(''player_state_changed'', OnPlayerStateChanged),
                  (''playback_error'', OnPlaybackError),
                  (''initialization_error'', OnInitializationError),
                  (''authentication_error'', OnAuthenticationError),
                  (''account_error'', OnAccountError),
                  (''ready'', OnReady)]))"

definition onPlayerStateChanged :: "PlaybackState option \<Rightarrow> world \<Rightarrow> world" where
  "onPlayerStateChanged state w =
     (let w1 = w\<lparr>playbackStateAtom := state\<rparr>;
          w2 = (case state of
                  None \<Rightarrow> w1
                | Some st \<Rightarrow> w1\<lparr>spotifyPlayerAtom := window_spotifyPlayer w1\<rparr>)
      in w2\<lparr>playerStatusAtom :=
              (case state of None \<Rightarrow> NOT_CONNECTED | Some st \<Rightarrow> READY)\<rparr>)"

text \<open>
  \<open>stateChangeCallback\<close> of the wrapper \<open>h\<close>: returns on a null state, otherwise calls
  \<open>playbackListenerForTick(paused)\<close>. Nothing adds to \<open>playbackCallbacks\<close>, so its loop
  has nothing to call.
\<close>

definition stateChangeCallback :: "nat \<Rightarrow> PlaybackState option \<Rightarrow> world \<Rightarrow> world" where
  "stateChangeCallback h state w =
     (case state of
        None \<Rightarrow> w
      | Some st \<Rightarrow> w\<lparr>tickListenerCalls := tickListenerCalls w @ [(h, paused st)]\<rparr>)"

text \<open>
  One listener of player \<open>h\<close> called with the payload of an event. Only the two
  listeners of \<open>player_state_changed\<close> read the payload.
\<close>

fun runListener :: "nat \<Rightarrow> PlaybackState option \<Rightarrow> world \<Rightarrow> listener \<Rightarrow> world" where
  "runListener h state w StateChangeCallback = stateChangeCallback h state w"
| "runListener h state w OnPlayerStateChanged = onPlayerStateChanged state w"
| "runListener h state w OnPlaybackError = w\<lparr>playerStatusAtom := PLAYBACK_ERROR\<rparr>"
| "runListener h state w OnInitializationError = w\<lparr>playerStatusAtom := INIT_ERROR\<rparr>"
| "runListener h state w OnAuthenticationError = w\<lparr>playerStatusAtom := AUTH_ERROR\<rparr>"
| "runListener h state w OnAccountError = w\<lparr>playerStatusAtom := ACCT_ERROR\<rparr>"
| "runListener h state w OnReady = w\<lparr>playerStatusAtom := NOT_CONNECTED\<rparr>"

text \<open>The device \<open>h\<close> emits an event: its listeners for that event run in order.\<close>

definition emit :: "nat \<Rightarrow> string \<Rightarrow> PlaybackState option \<Rightarrow> world \<Rightarrow> world" where
  "emit h event state w =
     foldl (runListener h state) w
       (map snd (filter (\<lambda>(e, l). e = event) (listeners (players w ! h))))"

text \<open>
  \<open>for (const event in playerEvents)\<close> runs over the keys of the array, which are its
  indices written in decimal.
\<close>

definition digit :: "nat \<Rightarrow> char" where
  "digit n = ''0123456789'' ! n"

fun decimal :: "nat \<Rightarrow> string" where
  "decimal n = (if n < 10 then [digit n] else decimal (n div 10) @ [digit (n mod 10)])"

declare decimal.simps [simp del]

definition forInKeys :: "'a list \<Rightarrow> string list" where
  "forInKeys xs = map decimal [0..<length xs]"

text \<open>The cleanup the effect returns.\<close>

definition useSpotifyPlayer_cleanup :: "world \<Rightarrow> world" where
  "useSpotifyPlayer_cleanup w =
     foldl (\<lambda>w event. case window_spotifyPlayer w of
                         None \<Rightarrow> w
                       | Some h \<Rightarrow> removeListener h event w)
       w (forInKeys playerEvents)"

subsection \<open>Runs\<close>

text \<open>
  What can happen, one step at a time: the effect runs with a token, its cleanup runs,
  the SDK reports ready, a \<open>then\<close> callback runs with the result of the connect, the
  device answers a state query, and the device emits an event. A step that cannot happen
  in the state gives None.
\<close>

datatype event =
  Effect "string option" | Cleanup | SdkReady | Then nat bool
  | StateAnswer "PlaybackState option" | Device nat string "PlaybackState option"

fun exec :: "event \<Rightarrow> world \<Rightarrow> world option" where
  "exec (Effect tok) w = Some (useSpotifyPlayer_effect tok w)"
| "exec Cleanup w = Some (useSpotifyPlayer_cleanup w)"
| "exec SdkReady w = sdkReady w"
| "exec (Then p ok) w =
     (if p \<in> set (thens w)
      then (case promises w ! p of
              Pending \<Rightarrow> None
            | Resolved wp \<Rightarrow> Some (useSpotifyPlayer_then wp ok (w\<lparr>thens := remove1 p (thens w)\<rparr>)))
      else None)"
| "exec (StateAnswer state) w =
     (case stateQueries w of
        [] \<Rightarrow> None
      | h # hs \<Rightarrow> Some (onPlayerStateChanged state (w\<lparr>stateQueries := hs\<rparr>)))"
| "exec (Device h ev state) w =
     (if h < length (players w) then Some (emit h ev state w) else None)"

fun run :: "event list \<Rightarrow> world \<Rightarrow> world option" where
  "run [] w = Some w"
| "run (e # es) w = (case exec e w of None \<Rightarrow> None | Some w' \<Rightarrow> run es w')"

text \<open>The players that are connected, and the scripts with the SDK's id.\<close>

definition connectedPlayers :: "world \<Rightarrow> nat list" where
  "connectedPlayers w = filter (\<lambda>h. connected (players w ! h)) [0..<length (players w)]"

definition sdkScripts :: "world \<Rightarrow> nat" where
  "sdkScripts w = length (filter (\<lambda>e. elem_id e = SPOTIFY_SCRIPT_ID) (document w))"

text \<open>
  The world after the hook has mounted with a token and the SDK has reported ready: the
  player is made and the promise resolved, the connect has not settled yet.
\<close>

definition mounted :: "string \<Rightarrow> world" where
  "mounted token =
     (case run [Effect (Some token), SdkReady] initial of Some w \<Rightarrow> w | None \<Rightarrow> initial)"

section \<open>The tick timer of \<open>createWrappedPlayer\<close>\<close>

text \<open>
  The module that wraps the player with \<open>createWrappedPlayer\<close> keeps the interval timer
  of the ticks in the module variable \<open>tickIntervalId\<close>, and the state subscribers in
  the module array \<open>playerStateCallbacks\<close>; both are shared by every wrapped player.
  (The module \<open>lib/spotify/player\<close> above hands the paused flag to
  \<open>playbackListenerForTick\<close> of another module instead.)
  \<open>intervals\<close> are the interval timers running in the window, each with its id and the
  player whose \<open>tick\<close> it calls; \<open>stateCalls\<close> are the calls of state subscribers.
\<close>

record timers =
  tickIntervalId :: "nat option"
  intervals :: "(nat \<times> nat) list"
  nextIntervalId :: nat
  playerStateCallbacks :: "nat list"
  stateCalls :: "(nat \<times> PlaybackState) list"

definition loaded :: timers where
  "loaded = \<lparr>tickIntervalId = None, intervals = [], nextIntervalId = 1,
     playerStateCallbacks = [], stateCalls = []\<rparr>"

text \<open>\<open>window.setInterval(tick, 100)\<close> starts a timer and returns its new id.\<close>

definition setInterval :: "nat \<Rightarrow> timers \<Rightarrow> nat \<times> timers" where
  "setInterval player s =
     (nextIntervalId s,
      s\<lparr>intervals := intervals s @ [(nextIntervalId s, player)],
        nextIntervalId := nextIntervalId s + 1\<rparr>)"

definition clearInterval :: "nat \<Rightarrow> timers \<Rightarrow> timers" where
  "clearInterval i s = s\<lparr>intervals := filter (\<lambda>(j, player). j \<noteq> i) (intervals s)\<rparr>"

text \<open>\<open>mainCallback\<close> of the wrapped player \<open>player\<close>.\<close>

definition mainCallback :: "nat \<Rightarrow> PlaybackState option \<Rightarrow> timers \<Rightarrow> timers" where
  "mainCallback player state s =
     (case state of
        None \<Rightarrow> s
      | Some st \<Rightarrow>
          (let s1 = (if \<not> paused st
                     then (case tickIntervalId s of
                             None \<Rightarrow> (let (i, s') = setInterval player s
                                       in s'\<lparr>tickIntervalId := Some i\<rparr>)
                           | Some i \<Rightarrow> s)
                     else (case tickIntervalId s of
                             None \<Rightarrow> s
                           | Some i \<Rightarrow> (clearInterval i s)\<lparr>tickIntervalId := None\<rparr>))
           in s1\<lparr>stateCalls :=
                 stateCalls s1 @ map (\<lambda>cb. (cb, st)) (playerStateCallbacks s1)\<rparr>))"

text \<open>
  \<open>addOnStateChange(cb)\<close>: asks the device for its state and pushes \<open>cb\<close>; the
  continuation \<open>state && cb(state)\<close> runs when the answer arrives.
\<close>

definition addOnStateChange :: "nat \<Rightarrow> PlaybackState option settled \<Rightarrow> timers \<Rightarrow> timers" where
  "addOnStateChange cb cur s =
     (let s1 = s\<lparr>playerStateCallbacks := playerStateCallbacks s @ [cb]\<rparr>
      in (case cur of
            Fulfilled (Some st) \<Rightarrow> s1\<lparr>stateCalls := stateCalls s1 @ [(cb, st)]\<rparr>
          | _ \<Rightarrow> s1))"

text \<open>
  What reaches the module: the device of a wrapped player reports a state change, which
  calls \<open>mainCallback\<close>; the hook calls the device's own \<open>disconnect\<close>, for which the
  module registers nothing and which runs no function of the module; a component
  subscribes to state changes.
\<close>

datatype signal =
  PlayerStateChanged nat "PlaybackState option"
  | DisconnectCalled nat
  | AddOnStateChange nat "PlaybackState option settled"

fun signalled :: "timers \<Rightarrow> signal \<Rightarrow> timers" where
  "signalled s (PlayerStateChanged player state) = mainCallback player state s"
| "signalled s (DisconnectCalled player) = s"
| "signalled s (AddOnStateChange cb cur) = addOnStateChange cb cur s"

definition tickTimerRunning :: "timers \<Rightarrow> bool" where
  "tickTimerRunning s = (case tickIntervalId s of None \<Rightarrow> False | Some i \<Rightarrow> True)"

text \<open>
  Two readings of a history of signals, most recent first. The first looks at the most
  recent state change that carried a state. The second follows the specification's
  words: the most recent transition was to unpaused and no disconnect has occurred since.
\<close>

fun lastReportUnpaused :: "signal list \<Rightarrow> bool" where
  "lastReportUnpaused [] = False"
| "lastReportUnpaused (PlayerStateChanged player (Some st) # earlier) = (\<not> paused st)"
| "lastReportUnpaused (sig # earlier) = lastReportUnpaused earlier"

fun spec_timerActive :: "signal list \<Rightarrow> bool" where
  "spec_timerActive [] = False"
| "spec_timerActive (PlayerStateChanged player (Some st) # earlier) = (\<not> paused st)"
| "spec_timerActive (DisconnectCalled player # earlier) = False"
| "spec_timerActive (sig # earlier) = spec_timerActive earlier"

text \<open>The timer named by \<open>tickIntervalId\<close> is the only one running.\<close>

definition timerInv :: "timers \<Rightarrow> bool" where
  "timerInv s =
     (case tickIntervalId s of
        None \<Rightarrow> intervals s = []
      | Some i \<Rightarrow> map fst (intervals s) = [i])"

section \<open>Results about the wrapped player\<close>

lemma findIndex_absent: "\<not> list_ex P xs \<Longrightarrow> findIndex P xs = - 1"
  by (induction xs) simp_all

lemma list_ex_eq_member: "list_ex (\<lambda>cb. cb = c) xs = (c \<in> set xs)"
  by (induction xs) auto

text \<open>
  C10. When the stored playback state is null the derived paused flag is true: a player
  with no known state is reported as paused. That is the case before any state has been
  received, and after the device has reported a null state.
\<close>

theorem paused_when_state_null:
  "spotifyPausedAtom None = True \<and>
   spotifyPausedAtom (playbackStateAtom initial) = True \<and>
   spotifyPausedAtom (playbackStateAtom (onPlayerStateChanged None w)) = True"
  by (simp add: spotifyPausedAtom_def initial_def onPlayerStateChanged_def)

text \<open>
  C7. Removing a callback that is not in the array of tick subscribers returns the array
  as it was (the function has no failing branch), so a later tick calls the same
  subscribers as before.
\<close>

theorem removeOnTick_absent:
  assumes "callback \<notin> set onTickCallbacks"
  shows "removeOnTick callback onTickCallbacks = onTickCallbacks \<and>
         tick ms cur (removeOnTick callback onTickCallbacks) = tick ms cur onTickCallbacks"
proof -
  from assms have "\<not> list_ex (\<lambda>cb. cb = callback) onTickCallbacks"
    by (simp add: list_ex_eq_member)
  then have "findIndex (\<lambda>cb. cb = callback) onTickCallbacks = - 1"
    by (rule findIndex_absent)
  then have "removeOnTick callback onTickCallbacks = onTickCallbacks"
    by (simp add: removeOnTick_def)
  then show ?thesis by simp
qed

theorem removeOnTick_absent_witness:
  "(3::nat) \<notin> set [1, 2] \<and> removeOnTick (3::nat) [1, 2] = [1, 2] \<and>
   tick (Some 40) Rejected (removeOnTick (3::nat) [1, 2]) = [Call 1 40, Call 2 40]"
proof -
  have h: "(3::nat) \<notin> set [1, 2]" by simp
  show ?thesis
    using h removeOnTick_absent [OF h, of "Some 40" Rejected]
    by (simp add: tick_def)
qed

text \<open>
  C8. \<open>addOnTick\<close> appends the callback to the array of tick subscribers and asks the
  device for its state; when the device answers with a state, the callback is called once
  with the position of that state, and with a null answer it is not called.
\<close>

theorem addOnTick_immediate_tick:
  "addOnTick cb (Fulfilled (Some st)) onTickCallbacks =
     (onTickCallbacks @ [cb], [GetCurrentState, Call cb (position st)]) \<and>
   addOnTick cb (Fulfilled None) onTickCallbacks = (onTickCallbacks @ [cb], [GetCurrentState]) \<and>
   cb \<in> set (fst (addOnTick cb cur onTickCallbacks))"
  by (simp add: addOnTick_def)

text \<open>
  C3. \<open>seekTo\<close> seeks the device to the time with negative values replaced by zero and,
  once the seek is fulfilled, calls every entry of the array of tick subscribers once with
  that same time, without asking the device for its state; a negative time behaves as zero.
\<close>

theorem seekTo_clamps_and_ticks:
  "seekTo ms (Fulfilled ()) cur onTickCallbacks =
     Seek (max 0 ms) # map (\<lambda>cb. Call cb (max 0 ms)) onTickCallbacks \<and>
   seekTo ms seeked cur onTickCallbacks = seekTo (max 0 ms) seeked cur onTickCallbacks \<and>
   seekTo (- 50) seeked cur onTickCallbacks = seekTo 0 seeked cur onTickCallbacks"
  by (simp add: seekTo_def tick_def max_def)

section \<open>Results about the bootstrap script\<close>

lemma find_None_filter: "(find P xs = None) = (filter P xs = [])"
  by (induction xs) auto

lemma document_wrapSpotifyPlayer: "document (snd (wrapSpotifyPlayer token w)) = document w"
  by (simp add: wrapSpotifyPlayer_def)

lemma document_disconnect: "document (disconnect h w) = document w"
  by (simp add: disconnect_def)

lemma document_getSpotifyPlayer:
  "document (snd (getSpotifyPlayer token w)) =
     (if getElementById SPOTIFY_SCRIPT_ID (document w) = None
      then document w @ [\<lparr>tag = ''script'', elem_id = SPOTIFY_SCRIPT_ID,
                          src = ''https://sdk.scdn.co/spotify-player.js''\<rparr>]
      else document w)"
  by (simp add: getSpotifyPlayer_def Let_def)

lemma sdkScripts_getSpotifyPlayer:
  "sdkScripts (snd (getSpotifyPlayer token w)) = (if sdkScripts w = 0 then 1 else sdkScripts w)"
  by (simp add: document_getSpotifyPlayer sdkScripts_def getElementById_def find_None_filter)

lemma document_obtain:
  "document (useSpotifyPlayer_obtain token w) = document w \<or>
   document (useSpotifyPlayer_obtain token w) = document (snd (getSpotifyPlayer token w))"
  by (simp add: useSpotifyPlayer_obtain_def Let_def split_beta document_wrapSpotifyPlayer
        document_disconnect document_getSpotifyPlayer split: option.split)

lemma document_effect:
  "document (useSpotifyPlayer_effect tok w) = document w \<or>
   (\<exists>token. document (useSpotifyPlayer_effect tok w) = document (snd (getSpotifyPlayer token w)))"
  using document_obtain
  by (auto simp: useSpotifyPlayer_effect_def Let_def split: option.split)

lemma document_removeListener: "document (removeListener h ev w) = document w"
  by (simp add: removeListener_def)

lemma document_addListener: "document (addListener h ev l w) = document w"
  by (simp add: addListener_def)

lemma document_cleanup: "document (useSpotifyPlayer_cleanup w) = document w"
proof -
  have "document (foldl (\<lambda>w event. case window_spotifyPlayer w of
                         None \<Rightarrow> w
                       | Some h \<Rightarrow> removeListener h event w) w evs) = document w" for evs
    by (induction evs arbitrary: w) (simp_all add: document_removeListener split: option.split)
  then show ?thesis by (simp add: useSpotifyPlayer_cleanup_def)
qed

lemma document_then: "document (useSpotifyPlayer_then wp ok w) = document w"
  by (simp add: useSpotifyPlayer_then_def Let_def document_addListener)

lemma document_onPlayerStateChanged: "document (onPlayerStateChanged state w) = document w"
  by (simp add: onPlayerStateChanged_def Let_def split: option.split)

lemma document_runListener: "document (runListener h state w l) = document w"
  by (cases l)
     (simp_all add: document_onPlayerStateChanged stateChangeCallback_def split: option.split)

lemma document_emit: "document (emit h ev state w) = document w"
proof -
  have "document (foldl (runListener h state) w ls) = document w" for ls
    by (induction ls arbitrary: w) (simp_all add: document_runListener)
  then show ?thesis by (simp add: emit_def)
qed

lemma document_sdkReady: "sdkReady w = Some w' \<Longrightarrow> document w' = document w"
  by (auto simp: sdkReady_def wrapSpotifyPlayer_def Let_def
           split: option.splits prod.splits if_splits)

lemma sdkScripts_cong: "document w' = document w \<Longrightarrow> sdkScripts w' = sdkScripts w"
  by (simp add: sdkScripts_def)

lemma sdkScripts_exec:
  assumes "exec e w = Some w'" and "sdkScripts w \<le> 1"
  shows "sdkScripts w' \<le> 1"
proof (cases e)
  case (Effect tok)
  then have w': "w' = useSpotifyPlayer_effect tok w" using assms by simp
  from document_effect [of tok w] show ?thesis
  proof
    assume "document (useSpotifyPlayer_effect tok w) = document w"
    then show ?thesis using assms(2) w' by (simp add: sdkScripts_def)
  next
    assume "\<exists>token. document (useSpotifyPlayer_effect tok w) =
                     document (snd (getSpotifyPlayer token w))"
    then obtain token where "document w' = document (snd (getSpotifyPlayer token w))"
      using w' by auto
    then have "sdkScripts w' = sdkScripts (snd (getSpotifyPlayer token w))"
      by (rule sdkScripts_cong)
    then show ?thesis using assms(2) by (simp add: sdkScripts_getSpotifyPlayer)
  qed
next
  case Cleanup
  then show ?thesis using assms by (auto simp: sdkScripts_def document_cleanup)
next
  case SdkReady
  then show ?thesis using assms document_sdkReady [of w w'] by (simp add: sdkScripts_def)
next
  case (Then p ok)
  then show ?thesis using assms
    by (auto simp: sdkScripts_def document_then split: if_splits promise.splits)
next
  case (StateAnswer st)
  then show ?thesis using assms
    by (auto simp: sdkScripts_def document_onPlayerStateChanged split: list.splits)
next
  case (Device h ev st)
  then show ?thesis using assms
    by (auto simp: sdkScripts_def document_emit split: if_splits)
qed

lemma sdkScripts_run:
  "run evs w = Some w' \<Longrightarrow> sdkScripts w \<le> 1 \<Longrightarrow> sdkScripts w' \<le> 1"
proof (induction evs arbitrary: w)
  case Nil
  then show ?case by simp
next
  case (Cons e evs)
  then obtain v where v: "exec e w = Some v" "run evs v = Some w'"
    by (auto split: option.splits)
  from v(1) Cons.prems(2) have "sdkScripts v \<le> 1" by (rule sdkScripts_exec)
  with v(2) show ?case by (rule Cons.IH)
qed

lemma sdkScripts_calls:
  "sdkScripts (foldl (\<lambda>w token. snd (getSpotifyPlayer token w)) w tokens) =
     (if tokens = [] \<or> sdkScripts w \<noteq> 0 then sdkScripts w else 1)"
  by (induction tokens arbitrary: w) (simp_all add: sdkScripts_getSpotifyPlayer)

text \<open>
  C9. The bootstrap script is injected at most once: after any number of calls of
  \<open>getSpotifyPlayer\<close>, with any tokens, from the initial world the document holds
  exactly one script with the SDK's id (none when there was no call), and in every world
  a run of the hook reaches from the initial world it holds at most one.
\<close>

theorem script_injected_at_most_once:
  "sdkScripts (foldl (\<lambda>w token. snd (getSpotifyPlayer token w)) initial tokens) =
     (if tokens = [] then 0 else 1) \<and>
   (run evs initial = Some w \<longrightarrow> sdkScripts w \<le> 1)"
proof -
  have i: "sdkScripts initial = 0" by (simp add: sdkScripts_def initial_def)
  then have "sdkScripts initial \<le> 1" by simp
  then have "run evs initial = Some w \<longrightarrow> sdkScripts w \<le> 1"
    using sdkScripts_run by blast
  then show ?thesis using i by (simp add: sdkScripts_calls)
qed

theorem script_injected_at_most_once_witness:
  "run [Effect (Some ''A''), Effect (Some ''B''), Effect (Some ''C'')] initial =
     Some (useSpotifyPlayer_effect (Some ''C'') (useSpotifyPlayer_effect (Some ''B'')
             (useSpotifyPlayer_effect (Some ''A'') initial))) \<and>
   sdkScripts (useSpotifyPlayer_effect (Some ''C'') (useSpotifyPlayer_effect (Some ''B'')
             (useSpotifyPlayer_effect (Some ''A'') initial))) \<le> 1 \<and>
   calls (useSpotifyPlayer_effect (Some ''C'') (useSpotifyPlayer_effect (Some ''B'')
             (useSpotifyPlayer_effect (Some ''A'') initial))) =
     [GetSpotifyPlayer ''A'', GetSpotifyPlayer ''B'', GetSpotifyPlayer ''C'']"
proof -
  have r: "run [Effect (Some ''A''), Effect (Some ''B''), Effect (Some ''C'')] initial =
     Some (useSpotifyPlayer_effect (Some ''C'') (useSpotifyPlayer_effect (Some ''B'')
             (useSpotifyPlayer_effect (Some ''A'') initial)))"
    by simp
  have c: "calls (useSpotifyPlayer_effect (Some ''C'') (useSpotifyPlayer_effect (Some ''B'')
             (useSpotifyPlayer_effect (Some ''A'') initial))) =
     [GetSpotifyPlayer ''A'', GetSpotifyPlayer ''B'', GetSpotifyPlayer ''C'']"
    by code_simp
  from script_injected_at_most_once [THEN conjunct2, rule_format, OF r]
  have "sdkScripts (useSpotifyPlayer_effect (Some ''C'') (useSpotifyPlayer_effect (Some ''B'')
             (useSpotifyPlayer_effect (Some ''A'') initial))) \<le> 1" .
  with r c show ?thesis by blast
qed

section \<open>Results about the device connection\<close>

lemma then_ok:
  assumes "wp < length (players w)"
  shows "useSpotifyPlayer_then wp True w =
     w\<lparr>players := (players w)[wp := (players w ! wp)
          \<lparr>connected := True,
           listeners := listeners (players w ! wp) @
             [(''player_state_changed'', OnPlayerStateChanged),
              (''playback_error'', OnPlaybackError),
              (''initialization_error'', OnInitializationError),
              (''authentication_error'', OnAuthenticationError),
              (''account_error'', OnAccountError),
              (''ready'', OnReady)]\<rparr>],
       calls := calls w @ [Connect wp],
       window_spotifyPlayer := Some wp,
       stateQueries := stateQueries w @ [wp]\<rparr>"
  using assms by (simp add: useSpotifyPlayer_then_def Let_def addListener_def)

lemma atoms_onPlayerStateChanged:
  "playerStatusAtom (onPlayerStateChanged state w) =
     (case state of None \<Rightarrow> NOT_CONNECTED | Some st \<Rightarrow> READY)"
  "playbackStateAtom (onPlayerStateChanged state w) = state"
  by (simp_all add: onPlayerStateChanged_def Let_def split: option.split)

lemma obtain_cached:
  assumes "tokenAndPromise w = Some (token, Some p)"
  shows "useSpotifyPlayer_obtain token w =
     (case window_spotifyPlayer w of
        None \<Rightarrow> w
      | Some h \<Rightarrow>
          if authToken (players w ! h) = token
          then w\<lparr>promises := promises w @ [Resolved h],
                 tokenAndPromise := Some (token, Some (length (promises w)))\<rparr>
          else w)"
  using assms by (simp add: useSpotifyPlayer_obtain_def split: option.split)

lemma obtain_construct:
  assumes "\<forall>p. tokenAndPromise w \<noteq> Some (token, Some p)"
    and "case window_spotifyPlayer w of None \<Rightarrow> True | Some h \<Rightarrow> authToken (players w ! h) \<noteq> token"
  shows "useSpotifyPlayer_obtain token w =
     (let w1 = (case window_spotifyPlayer w of None \<Rightarrow> w | Some h \<Rightarrow> disconnect h w);
          (promise, w2) =
             (if token = ''fake''
              then (let (h', w') = wrapSpotifyPlayer token w1
                    in (length (promises w'), w'\<lparr>promises := promises w' @ [Resolved h']\<rparr>))
              else getSpotifyPlayer token w1)
      in w2\<lparr>tokenAndPromise := Some (token, Some promise)\<rparr>)"
proof -
  have c: "(case tokenAndPromise w of
              None \<Rightarrow> True
            | Some (t, p) \<Rightarrow> (if token = t then p = None else True))"
    using assms(1) by (auto split: option.splits)
  have n: "\<not> (case window_spotifyPlayer w of
            None \<Rightarrow> False
          | Some h \<Rightarrow> authToken (players w ! h) = token)"
    using assms(2) by (auto split: option.splits)
  show ?thesis
    unfolding useSpotifyPlayer_obtain_def using c n by simp
qed

text \<open>
  C5. After a successful connect of a player, a state-changed event of that player with
  a state sets the status to READY and stores that state as the playback state; with a
  null payload it sets the status to NOT_CONNECTED and the stored playback state to null;
  and a ready event sets the status to NOT_CONNECTED.
\<close>

theorem events_after_connect:
  assumes "wp < length (players w)"
  shows
   "playerStatusAtom (emit wp ''player_state_changed'' (Some st)
        (useSpotifyPlayer_then wp True w)) = READY \<and>
    playbackStateAtom (emit wp ''player_state_changed'' (Some st)
        (useSpotifyPlayer_then wp True w)) = Some st \<and>
    playerStatusAtom (emit wp ''player_state_changed'' None
        (useSpotifyPlayer_then wp True w)) = NOT_CONNECTED \<and>
    playbackStateAtom (emit wp ''player_state_changed'' None
        (useSpotifyPlayer_then wp True w)) = None \<and>
    playerStatusAtom (emit wp ''ready'' payload
        (useSpotifyPlayer_then wp True w)) = NOT_CONNECTED"
  using assms
  by (simp add: then_ok emit_def atoms_onPlayerStateChanged)

theorem events_after_connect_witness:
  "0 < length (players (mounted ''A'')) \<and>
   playerStatusAtom (emit 0 ''player_state_changed''
        (Some \<lparr>paused = False, position = 1000, current_track = None\<rparr>)
        (useSpotifyPlayer_then 0 True (mounted ''A''))) = READY \<and>
   playbackStateAtom (emit 0 ''player_state_changed''
        (Some \<lparr>paused = False, position = 1000, current_track = None\<rparr>)
        (useSpotifyPlayer_then 0 True (mounted ''A''))) =
     Some \<lparr>paused = False, position = 1000, current_track = None\<rparr> \<and>
   playerStatusAtom (emit 0 ''player_state_changed'' None
        (useSpotifyPlayer_then 0 True (mounted ''A''))) = NOT_CONNECTED \<and>
   playbackStateAtom (emit 0 ''player_state_changed'' None
        (useSpotifyPlayer_then 0 True (mounted ''A''))) = None \<and>
   playerStatusAtom (emit 0 ''ready'' None
        (useSpotifyPlayer_then 0 True (mounted ''A''))) = NOT_CONNECTED"
proof -
  have h: "0 < length (players (mounted ''A''))" by code_simp
  show ?thesis
    using h events_after_connect [OF h,
      of "\<lparr>paused = False, position = 1000, current_track = None\<rparr>" None]
    by blast
qed

text \<open>
  C6. When the connect resolves to false, the callback sets the status to INIT_ERROR and
  changes nothing else: it registers no listener, and \<open>tokenAndPromise\<close> stays as it
  was. A later run of the effect with the same token makes no player, calls no disconnect
  and keeps the token in \<open>tokenAndPromise\<close>: the promise there stays the cached one,
  unless \<open>window.spotifyPlayer\<close> carries that token, in which case it is a new promise
  already resolved to that player.
\<close>

theorem connect_false_keeps_cache:
  assumes "tokenAndPromise w = Some (token, Some p)" and "token \<noteq> []"
  shows "useSpotifyPlayer_then wp False w = w\<lparr>playerStatusAtom := INIT_ERROR\<rparr> \<and>
     useSpotifyPlayer_effect (Some token) (useSpotifyPlayer_then wp False w) =
       (case window_spotifyPlayer w of
          None \<Rightarrow> w\<lparr>playerStatusAtom := INIT_ERROR, thens := thens w @ [p]\<rparr>
        | Some h \<Rightarrow>
            if authToken (players w ! h) = token
            then w\<lparr>playerStatusAtom := INIT_ERROR,
                   promises := promises w @ [Resolved h],
                   tokenAndPromise := Some (token, Some (length (promises w))),
                   thens := thens w @ [length (promises w)]\<rparr>
            else w\<lparr>playerStatusAtom := INIT_ERROR, thens := thens w @ [p]\<rparr>)"
proof -
  have f: "useSpotifyPlayer_then wp False w = w\<lparr>playerStatusAtom := INIT_ERROR\<rparr>"
    by (simp add: useSpotifyPlayer_then_def)
  have c: "tokenAndPromise (w\<lparr>playerStatusAtom := INIT_ERROR\<rparr>) = Some (token, Some p)"
    using assms(1) by simp
  show ?thesis
    using assms
    by (simp add: f useSpotifyPlayer_effect_def Let_def obtain_cached [OF c] split: option.split)
qed

theorem connect_false_keeps_cache_witness:
  "tokenAndPromise (mounted ''A'') = Some (''A'', Some 0) \<and> ''A'' \<noteq> [] \<and>
   window_spotifyPlayer (mounted ''A'') = None \<and>
   promises (mounted ''A'') = [Resolved 0] \<and>
   useSpotifyPlayer_then 0 False (mounted ''A'') =
     (mounted ''A'')\<lparr>playerStatusAtom := INIT_ERROR\<rparr> \<and>
   useSpotifyPlayer_effect (Some ''A'') (useSpotifyPlayer_then 0 False (mounted ''A'')) =
     (mounted ''A'')\<lparr>playerStatusAtom := INIT_ERROR, thens := thens (mounted ''A'') @ [0]\<rparr>"
proof -
  have h: "tokenAndPromise (mounted ''A'') = Some (''A'', Some 0)" by code_simp
  have n: "''A'' \<noteq> []" by simp
  have v: "window_spotifyPlayer (mounted ''A'') = None" by code_simp
  have r: "promises (mounted ''A'') = [Resolved 0]" by code_simp
  note t = connect_false_keeps_cache [OF h n, of 0, unfolded v option.case]
  show ?thesis
    using h n v r t by blast
qed

text \<open>
  C2. The cleanup of the effect, run after a successful connect: the loop
  \<open>for (const event in playerEvents)\<close> passes the indices of the array to
  \<open>removeListener\<close>, so the listeners of the six events are all still registered on the
  player, and an authentication error the device emits afterwards still sets the status.
\<close>

theorem cleanup_removes_no_listener:
  "map_option (\<lambda>w. map fst (listeners (players w ! 0)))
     (run [Effect (Some ''A''), SdkReady, Then 0 True, Cleanup] initial) =
     Some (''player_state_changed'' # playerEvents) \<and>
   map_option playerStatusAtom
     (run [Effect (Some ''A''), SdkReady, Then 0 True, Cleanup,
           Device 0 ''authentication_error'' None] initial) = Some AUTH_ERROR"
  by code_simp

text \<open>
  C1, as the code has it. When \<open>tokenAndPromise\<close> holds the token with a promise, the
  effect makes no player, calls no disconnect and leaves the document and the SDK's ready
  function alone; it keeps the cached promise and makes no promise, unless
  \<open>window.spotifyPlayer\<close> carries the token, in which case it caches a new promise that
  is already resolved to that player. In every other case where \<open>window.spotifyPlayer\<close>
  does not carry the token, the effect starts a construction and caches its promise
  (pending on the SDK's ready function, or resolved to the new player for the fake
  token): when \<open>window.spotifyPlayer\<close> holds a player, that player's disconnect is called
  first and the player is not connected afterwards; when it holds none, nothing is
  disconnected.
\<close>

theorem obtain_reuses_or_disconnects_first:
  "(tokenAndPromise w = Some (token, Some p) \<longrightarrow>
      players (useSpotifyPlayer_obtain token w) = players w \<and>
      calls (useSpotifyPlayer_obtain token w) = calls w \<and>
      onSpotifyWebPlaybackSDKReady (useSpotifyPlayer_obtain token w) =
        onSpotifyWebPlaybackSDKReady w \<and>
      document (useSpotifyPlayer_obtain token w) = document w \<and>
      tokenAndPromise (useSpotifyPlayer_obtain token w) =
        (case window_spotifyPlayer w of
           None \<Rightarrow> Some (token, Some p)
         | Some h \<Rightarrow>
             if authToken (players w ! h) = token
             then Some (token, Some (length (promises w)))
             else Some (token, Some p)) \<and>
      promises (useSpotifyPlayer_obtain token w) =
        (case window_spotifyPlayer w of
           None \<Rightarrow> promises w
         | Some h \<Rightarrow>
             if authToken (players w ! h) = token
             then promises w @ [Resolved h]
             else promises w)) \<and>
   (window_spotifyPlayer w = Some h \<and> h < length (players w) \<and>
    authToken (players w ! h) \<noteq> token \<and>
    (\<forall>p. tokenAndPromise w \<noteq> Some (token, Some p)) \<longrightarrow>
      calls (useSpotifyPlayer_obtain token w) =
        calls w @ [Disconnect h,
                   if token = ''fake'' then NewPlayer (length (players w))
                   else GetSpotifyPlayer token] \<and>
      \<not> connected (players (useSpotifyPlayer_obtain token w) ! h) \<and>
      tokenAndPromise (useSpotifyPlayer_obtain token w) =
        Some (token, Some (length (promises w))) \<and>
      promises (useSpotifyPlayer_obtain token w) =
        promises w @ [if token = ''fake'' then Resolved (length (players w)) else Pending]) \<and>
   (window_spotifyPlayer w = None \<and>
    (\<forall>p. tokenAndPromise w \<noteq> Some (token, Some p)) \<longrightarrow>
      calls (useSpotifyPlayer_obtain token w) =
        calls w @ [if token = ''fake'' then NewPlayer (length (players w))
                   else GetSpotifyPlayer token] \<and>
      tokenAndPromise (useSpotifyPlayer_obtain token w) =
        Some (token, Some (length (promises w))) \<and>
      promises (useSpotifyPlayer_obtain token w) =
        promises w @ [if token = ''fake'' then Resolved (length (players w)) else Pending])"
proof (intro conjI impI)
  assume c: "tokenAndPromise w = Some (token, Some p)"
  note o = obtain_cached [OF c]
  show "players (useSpotifyPlayer_obtain token w) = players w"
    by (simp add: o split: option.split)
  show "calls (useSpotifyPlayer_obtain token w) = calls w"
    by (simp add: o split: option.split)
  show "onSpotifyWebPlaybackSDKReady (useSpotifyPlayer_obtain token w) =
        onSpotifyWebPlaybackSDKReady w"
    by (simp add: o split: option.split)
  show "document (useSpotifyPlayer_obtain token w) = document w"
    by (simp add: o split: option.split)
  show "tokenAndPromise (useSpotifyPlayer_obtain token w) =
        (case window_spotifyPlayer w of
           None \<Rightarrow> Some (token, Some p)
         | Some h \<Rightarrow>
             if authToken (players w ! h) = token
             then Some (token, Some (length (promises w)))
             else Some (token, Some p))"
    by (simp add: o c split: option.split)
  show "promises (useSpotifyPlayer_obtain token w) =
        (case window_spotifyPlayer w of
           None \<Rightarrow> promises w
         | Some h \<Rightarrow>
             if authToken (players w ! h) = token
             then promises w @ [Resolved h]
             else promises w)"
    by (simp add: o split: option.split)
next
  assume a: "window_spotifyPlayer w = Some h \<and> h < length (players w) \<and>
    authToken (players w ! h) \<noteq> token \<and>
    (\<forall>p. tokenAndPromise w \<noteq> Some (token, Some p))"
  then have o: "useSpotifyPlayer_obtain token w =
     (let w1 = (case window_spotifyPlayer w of None \<Rightarrow> w | Some h \<Rightarrow> disconnect h w);
          (promise, w2) =
             (if token = ''fake''
              then (let (h', w') = wrapSpotifyPlayer token w1
                    in (length (promises w'), w'\<lparr>promises := promises w' @ [Resolved h']\<rparr>))
              else getSpotifyPlayer token w1)
      in w2\<lparr>tokenAndPromise := Some (token, Some promise)\<rparr>)"
    by (intro obtain_construct) auto
  from a have v: "window_spotifyPlayer w = Some h" by simp
  show "calls (useSpotifyPlayer_obtain token w) =
        calls w @ [Disconnect h,
                   if token = ''fake'' then NewPlayer (length (players w))
                   else GetSpotifyPlayer token]"
    by (simp add: o v Let_def disconnect_def wrapSpotifyPlayer_def getSpotifyPlayer_def)
  show "\<not> connected (players (useSpotifyPlayer_obtain token w) ! h)"
    using a
    by (simp add: o v Let_def disconnect_def wrapSpotifyPlayer_def getSpotifyPlayer_def
          nth_append)
  show "tokenAndPromise (useSpotifyPlayer_obtain token w) =
        Some (token, Some (length (promises w)))"
    by (simp add: o v Let_def disconnect_def wrapSpotifyPlayer_def getSpotifyPlayer_def)
  show "promises (useSpotifyPlayer_obtain token w) =
        promises w @ [if token = ''fake'' then Resolved (length (players w)) else Pending]"
    by (simp add: o v Let_def disconnect_def wrapSpotifyPlayer_def getSpotifyPlayer_def)
next
  assume a: "window_spotifyPlayer w = None \<and>
    (\<forall>p. tokenAndPromise w \<noteq> Some (token, Some p))"
  then have o: "useSpotifyPlayer_obtain token w =
     (let w1 = (case window_spotifyPlayer w of None \<Rightarrow> w | Some h \<Rightarrow> disconnect h w);
          (promise, w2) =
             (if token = ''fake''
              then (let (h', w') = wrapSpotifyPlayer token w1
                    in (length (promises w'), w'\<lparr>promises := promises w' @ [Resolved h']\<rparr>))
              else getSpotifyPlayer token w1)
      in w2\<lparr>tokenAndPromise := Some (token, Some promise)\<rparr>)"
    by (intro obtain_construct) auto
  from a have v: "window_spotifyPlayer w = None" by simp
  show "calls (useSpotifyPlayer_obtain token w) =
        calls w @ [if token = ''fake'' then NewPlayer (length (players w))
                   else GetSpotifyPlayer token]"
    by (simp add: o v Let_def wrapSpotifyPlayer_def getSpotifyPlayer_def)
  show "tokenAndPromise (useSpotifyPlayer_obtain token w) =
        Some (token, Some (length (promises w)))"
    by (simp add: o v Let_def wrapSpotifyPlayer_def getSpotifyPlayer_def)
  show "promises (useSpotifyPlayer_obtain token w) =
        promises w @ [if token = ''fake'' then Resolved (length (players w)) else Pending]"
    by (simp add: o v Let_def wrapSpotifyPlayer_def getSpotifyPlayer_def)
qed


theorem obtain_reuses_or_disconnects_first_witness:
  "tokenAndPromise (mounted ''A'') = Some (''A'', Some 0) \<and>
   window_spotifyPlayer (mounted ''A'') = None \<and>
   players (useSpotifyPlayer_obtain ''A'' (mounted ''A'')) = players (mounted ''A'') \<and>
   calls (useSpotifyPlayer_obtain ''A'' (mounted ''A'')) = calls (mounted ''A'') \<and>
   tokenAndPromise (useSpotifyPlayer_obtain ''A'' (mounted ''A'')) = Some (''A'', Some 0) \<and>
   promises (useSpotifyPlayer_obtain ''A'' (mounted ''A'')) = [Resolved 0] \<and>
   tokenAndPromise (useSpotifyPlayer_then 0 True (mounted ''A'')) = Some (''A'', Some 0) \<and>
   window_spotifyPlayer (useSpotifyPlayer_then 0 True (mounted ''A'')) = Some 0 \<and>
   authToken (players (useSpotifyPlayer_then 0 True (mounted ''A'')) ! 0) = ''A'' \<and>
   players (useSpotifyPlayer_obtain ''A'' (useSpotifyPlayer_then 0 True (mounted ''A''))) =
     players (useSpotifyPlayer_then 0 True (mounted ''A'')) \<and>
   calls (useSpotifyPlayer_obtain ''A'' (useSpotifyPlayer_then 0 True (mounted ''A''))) =
     calls (useSpotifyPlayer_then 0 True (mounted ''A'')) \<and>
   tokenAndPromise (useSpotifyPlayer_obtain ''A'' (useSpotifyPlayer_then 0 True (mounted ''A''))) =
     Some (''A'', Some 1) \<and>
   promises (useSpotifyPlayer_obtain ''A'' (useSpotifyPlayer_then 0 True (mounted ''A''))) =
     [Resolved 0, Resolved 0] \<and>
   calls (useSpotifyPlayer_obtain ''B'' (useSpotifyPlayer_then 0 True (mounted ''A''))) =
     calls (useSpotifyPlayer_then 0 True (mounted ''A'')) @
       [Disconnect 0, GetSpotifyPlayer ''B''] \<and>
   connected (players (useSpotifyPlayer_then 0 True (mounted ''A'')) ! 0) \<and>
   \<not> connected (players (useSpotifyPlayer_obtain ''B''
        (useSpotifyPlayer_then 0 True (mounted ''A''))) ! 0) \<and>
   tokenAndPromise (useSpotifyPlayer_obtain ''B'' (useSpotifyPlayer_then 0 True (mounted ''A''))) =
     Some (''B'', Some 1) \<and>
   promises (useSpotifyPlayer_obtain ''B'' (useSpotifyPlayer_then 0 True (mounted ''A''))) =
     [Resolved 0, Pending] \<and>
   window_spotifyPlayer initial = None \<and> tokenAndPromise initial = None \<and>
   calls (useSpotifyPlayer_obtain ''fake'' initial) = [NewPlayer 0] \<and>
   tokenAndPromise (useSpotifyPlayer_obtain ''fake'' initial) = Some (''fake'', Some 0) \<and>
   promises (useSpotifyPlayer_obtain ''fake'' initial) = [Resolved 0]"
proof -
  have h1: "tokenAndPromise (mounted ''A'') = Some (''A'', Some 0)" by code_simp
  have v1: "window_spotifyPlayer (mounted ''A'') = None" by code_simp
  have p1: "promises (mounted ''A'') = [Resolved 0]" by code_simp
  have h2: "tokenAndPromise (useSpotifyPlayer_then 0 True (mounted ''A'')) = Some (''A'', Some 0)"
    by code_simp
  have v2: "window_spotifyPlayer (useSpotifyPlayer_then 0 True (mounted ''A'')) = Some 0"
    by code_simp
  have l2: "0 < length (players (useSpotifyPlayer_then 0 True (mounted ''A'')))"
    by code_simp
  have a2: "authToken (players (useSpotifyPlayer_then 0 True (mounted ''A'')) ! 0) = ''A''"
    by code_simp
  have c2: "connected (players (useSpotifyPlayer_then 0 True (mounted ''A'')) ! 0)"
    by code_simp
  have p2: "promises (useSpotifyPlayer_then 0 True (mounted ''A'')) = [Resolved 0]"
    by code_simp
  have v3: "window_spotifyPlayer initial = None" by (simp add: initial_def)
  have h3: "tokenAndPromise initial = None" by (simp add: initial_def)
  have e3: "calls initial = [] \<and> promises initial = [] \<and> players initial = []"
    by (simp add: initial_def)
  have g2: "window_spotifyPlayer (useSpotifyPlayer_then 0 True (mounted ''A'')) = Some 0 \<and>
      0 < length (players (useSpotifyPlayer_then 0 True (mounted ''A''))) \<and>
      authToken (players (useSpotifyPlayer_then 0 True (mounted ''A'')) ! 0) \<noteq> ''B'' \<and>
      (\<forall>p. tokenAndPromise (useSpotifyPlayer_then 0 True (mounted ''A'')) \<noteq>
            Some (''B'', Some p))"
    using v2 l2 a2 h2 by simp
  have g3: "window_spotifyPlayer initial = None \<and>
      (\<forall>p. tokenAndPromise initial \<noteq> Some (''fake'', Some p))"
    using v3 h3 by simp
  note t1 = obtain_reuses_or_disconnects_first
    [where w = "mounted ''A''" and token = "''A''" and p = 0,
     THEN conjunct1, rule_format, OF h1, unfolded v1 option.case p1]
  note t1' = obtain_reuses_or_disconnects_first
    [where w = "useSpotifyPlayer_then 0 True (mounted ''A'')" and token = "''A''" and p = 0,
     THEN conjunct1, rule_format, OF h2, unfolded v2 option.case a2 p2]
  note t2 = obtain_reuses_or_disconnects_first
    [where w = "useSpotifyPlayer_then 0 True (mounted ''A'')" and token = "''B''" and h = 0,
     THEN conjunct2, THEN conjunct1, rule_format, OF g2, unfolded p2]
  note t3 = obtain_reuses_or_disconnects_first
    [where w = initial and token = "''fake''",
     THEN conjunct2, THEN conjunct2, rule_format, OF g3]
  show ?thesis
    using h1 v1 h2 v2 a2 c2 v3 h3 e3 t1 t1' t2 t3 by simp
qed

text \<open>
  C1, as the claim states it, fails. The hook mounts with token A and the SDK reports
  ready; before the connect of that player settles the token changes to the fake one.
  \<open>window.spotifyPlayer\<close> is still undefined then, so the effect calls no disconnect
  and makes the second player; both connects succeed, and both players are connected.
\<close>

theorem two_players_connected:
  "map_option connectedPlayers
     (run [Effect (Some ''A''), SdkReady, Cleanup, Effect (Some ''fake''),
           Then 0 True, Then 1 True] initial) = Some [0, 1] \<and>
   map_option calls
     (run [Effect (Some ''A''), SdkReady, Cleanup, Effect (Some ''fake''),
           Then 0 True, Then 1 True] initial) =
     Some [GetSpotifyPlayer ''A'', NewPlayer 0, NewPlayer 1, Connect 0, Connect 1]"
  by code_simp

section \<open>Results about the tick timer\<close>

lemma timerInv_mainCallback: "timerInv s \<Longrightarrow> timerInv (mainCallback player state s)"
  by (auto simp: timerInv_def mainCallback_def setInterval_def clearInterval_def Let_def
           split: option.splits)

lemma timerInv_signalled:
  assumes "timerInv s"
  shows "timerInv (signalled s sig)"
proof (cases sig)
  case (PlayerStateChanged player state)
  then show ?thesis using assms by (simp add: timerInv_mainCallback)
next
  case (DisconnectCalled player)
  then show ?thesis using assms by simp
next
  case (AddOnStateChange cb cur)
  then show ?thesis using assms
    by (simp add: timerInv_def addOnStateChange_def Let_def
             split: option.splits settled.splits)
qed

lemma timerInv_foldl: "timerInv s \<Longrightarrow> timerInv (foldl signalled s sigs)"
  by (induction sigs arbitrary: s) (simp_all add: timerInv_signalled)

lemma running_mainCallback:
  "tickTimerRunning (mainCallback player state s) =
     (case state of None \<Rightarrow> tickTimerRunning s | Some st \<Rightarrow> \<not> paused st)"
  by (auto simp: tickTimerRunning_def mainCallback_def setInterval_def clearInterval_def Let_def
           split: option.splits)

lemma running_addOnStateChange:
  "tickTimerRunning (addOnStateChange cb cur s) = tickTimerRunning s"
  by (simp add: tickTimerRunning_def addOnStateChange_def Let_def
           split: option.splits settled.splits)

lemma running_history:
  "tickTimerRunning (foldl signalled loaded sigs) = lastReportUnpaused (rev sigs)"
proof (induction sigs rule: rev_induct)
  case Nil
  then show ?case by (simp add: loaded_def tickTimerRunning_def)
next
  case (snoc sig sigs)
  show ?case
  proof (cases sig)
    case (PlayerStateChanged player state)
    then show ?thesis using snoc
      by (cases state) (simp_all add: running_mainCallback)
  next
    case (DisconnectCalled player)
    then show ?thesis using snoc by simp
  next
    case (AddOnStateChange cb cur)
    then show ?thesis using snoc by (simp add: running_addOnStateChange)
  qed
qed

text \<open>
  C4, as the code has it. After every history of state changes, disconnects and
  subscriptions since the module was loaded, the tick timer runs exactly when the most
  recent state change that carried a state was unpaused (a disconnect and a null state
  leave the timer as it is), and at most one interval timer runs in the window, whatever
  players the state changes came from.
\<close>

theorem tick_timer_follows_last_report:
  "tickTimerRunning (foldl signalled loaded sigs) = lastReportUnpaused (rev sigs) \<and>
   length (intervals (foldl signalled loaded sigs)) \<le> 1 \<and>
   (length (intervals (foldl signalled loaded sigs)) = 1) = lastReportUnpaused (rev sigs)"
proof -
  have "timerInv loaded" by (simp add: timerInv_def loaded_def)
  then have inv: "timerInv (foldl signalled loaded sigs)" by (rule timerInv_foldl)
  have len: "length (intervals (foldl signalled loaded sigs)) =
        (if tickTimerRunning (foldl signalled loaded sigs) then 1 else 0)"
    using inv arg_cong [where f = length, of "map fst (intervals (foldl signalled loaded sigs))"]
    by (auto simp: timerInv_def tickTimerRunning_def split: option.splits)
  show ?thesis using running_history [of sigs] len by auto
qed

text \<open>
  C4, as the claim states it, fails. A player reports unpaused and is then disconnected:
  the timer still runs, though a disconnect has occurred since the transition to unpaused.
\<close>

theorem timer_survives_disconnect:
  "tickIntervalId (foldl signalled loaded
      [PlayerStateChanged 0 (Some \<lparr>paused = False, position = 1000, current_track = None\<rparr>),
       DisconnectCalled 0]) = Some 1 \<and>
   intervals (foldl signalled loaded
      [PlayerStateChanged 0 (Some \<lparr>paused = False, position = 1000, current_track = None\<rparr>),
       DisconnectCalled 0]) = [(1, 0)] \<and>
   \<not> spec_timerActive (rev
      [PlayerStateChanged 0 (Some \<lparr>paused = False, position = 1000, current_track = None\<rparr>),
       DisconnectCalled 0])"
  by (simp add: loaded_def mainCallback_def setInterval_def Let_def)

end
